theory Spec2Isabelle
  imports Complex_Main "HOL-Library.Word"
begin

unbundle bit_operations_syntax

section \<open>JavaScript values used by the view\<close>

text \<open>
  A JavaScript string is a sequence of 16-bit code units. String constants of the source
  are ASCII and are written with \<open>js\<close>.
\<close>

type_synonym jsstring = "16 word list"

definition js :: "string \<Rightarrow> jsstring" where
  "js s = map of_char s"

text \<open>
  A number that \<open>JSON.parse\<close> produced: a finite double (every finite double is a
  rational; both zeros are \<open>Finite 0\<close>) or an overflow to an infinity.
\<close>

datatype jsnum = Finite rat | PosInfinity | NegInfinity

text \<open>
  The values \<open>response.json()\<close> can resolve to. The members of an object are kept in
  the order of the text.
\<close>

datatype json =
    JNull
  | JBool bool
  | JNum jsnum
  | JStr jsstring
  | JArr "json list"
  | JObj "(jsstring \<times> json) list"

datatype jsval = Undefined | Val json

text \<open>What is thrown inside the \<open>try\<close> block of \<open>handleGenerateTweet\<close>.\<close>

datatype js_exception =
    NetworkError  \<comment> \<open>\<open>fetch\<close> rejected\<close>
  | HttpStatusError nat  \<comment> \<open>\<open>new Error(`HTTP error! status: ${response.status}`)\<close>\<close>
  | JsonParseError  \<comment> \<open>\<open>response.json()\<close> rejected\<close>
  | NullPropertyAccess  \<comment> \<open>the TypeError of reading a property of \<open>null\<close>\<close>
  | ToStringTypeError  \<comment> \<open>the TypeError of \<open>new Error(m)\<close> when \<open>m\<close> has no string form\<close>
  | ErrorOf jsval  \<comment> \<open>the Error that \<open>new Error(m)\<close> makes, with message \<open>String(m)\<close>\<close>

text \<open>ToBoolean, as \<open>if (data.error)\<close> and \<open>{error && ...}\<close> apply it.\<close>

fun truthy :: "jsval \<Rightarrow> bool" where
  "truthy Undefined = False"
| "truthy (Val JNull) = False"
| "truthy (Val (JBool b)) = b"
| "truthy (Val (JNum (Finite q))) = (q \<noteq> 0)"
| "truthy (Val (JNum PosInfinity)) = True"
| "truthy (Val (JNum NegInfinity)) = True"
| "truthy (Val (JStr s)) = (s \<noteq> [])"
| "truthy (Val (JArr xs)) = True"
| "truthy (Val (JObj kvs)) = True"

text \<open>
  The own property \<open>k\<close> of a parsed JSON value, for a name \<open>k\<close> that is neither an
  index nor \<open>length\<close> (\<open>error\<close> and \<open>tweet\<close> in the source): only an object has
  one, and the last member of that name in the text is the one \<open>JSON.parse\<close> kept.
\<close>

fun own_property :: "json \<Rightarrow> jsstring \<Rightarrow> json option" where
  "own_property (JObj kvs) k = map_of (rev kvs) k"
| "own_property JNull k = None"
| "own_property (JBool b) k = None"
| "own_property (JNum n) k = None"
| "own_property (JStr s) k = None"
| "own_property (JArr xs) k = None"

text \<open>
  The expression \<open>data.k\<close> for such a name, which no prototype defines either: reading
  from \<open>null\<close> throws a TypeError, a missing property reads as \<open>undefined\<close>.
\<close>

definition get_prop :: "json \<Rightarrow> jsstring \<Rightarrow> js_exception + jsval" where
  "get_prop d k =
     (if d = JNull then Inl NullPropertyAccess
      else Inr (case own_property d k of None \<Rightarrow> Undefined | Some x \<Rightarrow> Val x))"

subsection \<open>\<open>new Error(data.error)\<close>\<close>

text \<open>
  The constructor converts its argument with ToString, unless it is \<open>undefined\<close>.
  On a value that \<open>JSON.parse\<close> made the conversion throws a TypeError in one case
  only. An object with an own property \<open>toString\<close> hides
  \<open>Object.prototype.toString\<close> behind a value that is not callable, and \<open>valueOf\<close>
  then gives no primitive. An array is joined, which converts every element but
  \<open>null\<close>. Every other value has a string form.
\<close>

fun ToString_throws :: "json \<Rightarrow> bool" where
  "ToString_throws (JObj kvs) = (own_property (JObj kvs) (js ''toString'') \<noteq> None)"
| "ToString_throws (JArr xs) = list_ex ToString_throws xs"
| "ToString_throws JNull = False"
| "ToString_throws (JBool b) = False"
| "ToString_throws (JNum n) = False"
| "ToString_throws (JStr s) = False"

text \<open>
  What \<open>throw new Error(m)\<close> throws: the TypeError of the conversion, or the new Error.
  \<open>ErrorOf m\<close> stands for the Error whose message is the string form of \<open>m\<close>, which is
  \<open>m\<close> itself when \<open>m\<close> is a string; the string form of a number is not spelled out.
\<close>

definition new_Error :: "jsval \<Rightarrow> js_exception" where
  "new_Error m =
     (case m of
        Undefined \<Rightarrow> ErrorOf Undefined
      | Val x \<Rightarrow> if ToString_throws x then ToStringTypeError else ErrorOf (Val x))"

subsection \<open>\<open>String.prototype.trim\<close>\<close>

text \<open>
  The code units that \<open>trim\<close> strips: ECMAScript's WhiteSpace (TAB, VT, FF, ZWNBSP and
  the category Zs) and LineTerminator (LF, CR, LS, PS).
\<close>

definition isWhiteSpace :: "16 word \<Rightarrow> bool" where
  "isWhiteSpace c \<longleftrightarrow>
     c = 0x0009 \<or> c = 0x000A \<or> c = 0x000B \<or> c = 0x000C \<or> c = 0x000D \<or> c = 0x0020 \<or>
     c = 0x00A0 \<or> c = 0x1680 \<or> (0x2000 \<le> c \<and> c \<le> 0x200A) \<or> c = 0x2028 \<or>
     c = 0x2029 \<or> c = 0x202F \<or> c = 0x205F \<or> c = 0x3000 \<or> c = 0xFEFF"

definition trim :: "jsstring \<Rightarrow> jsstring" where
  "trim s = rev (dropWhile isWhiteSpace (rev (dropWhile isWhiteSpace s)))"

subsection \<open>\<open>JSON.stringify({ topic })\<close>\<close>

definition isLeadingSurrogate :: "16 word \<Rightarrow> bool" where
  "isLeadingSurrogate c \<longleftrightarrow> 0xD800 \<le> c \<and> c \<le> 0xDBFF"

definition isTrailingSurrogate :: "16 word \<Rightarrow> bool" where
  "isTrailingSurrogate c \<longleftrightarrow> 0xDC00 \<le> c \<and> c \<le> 0xDFFF"

definition hexDigit :: "16 word \<Rightarrow> 16 word" where
  "hexDigit d = (if d < 10 then 0x30 + d else 0x61 + (d - 10))"

text \<open>UnicodeEscape: \<open>\u\<close> and four lower-case hexadecimal digits.\<close>

definition UnicodeEscape :: "16 word \<Rightarrow> jsstring" where
  "UnicodeEscape c =
     [0x5C, 0x75, hexDigit (drop_bit 12 c), hexDigit (take_bit 4 (drop_bit 8 c)),
      hexDigit (take_bit 4 (drop_bit 4 c)), hexDigit (take_bit 4 c)]"

text \<open>
  One code point of QuoteJSONString that is a single code unit: the two-character
  escapes, then \<open>UnicodeEscape\<close> for a control character or a lone surrogate, and the
  code unit itself otherwise.
\<close>

definition escapeUnit :: "16 word \<Rightarrow> jsstring" where
  "escapeUnit c =
     (if c = 0x08 then [0x5C, 0x62]
      else if c = 0x09 then [0x5C, 0x74]
      else if c = 0x0A then [0x5C, 0x6E]
      else if c = 0x0C then [0x5C, 0x66]
      else if c = 0x0D then [0x5C, 0x72]
      else if c = 0x22 then [0x5C, 0x22]
      else if c = 0x5C then [0x5C, 0x5C]
      else if c < 0x20 \<or> isLeadingSurrogate c \<or> isTrailingSurrogate c then UnicodeEscape c
      else [c])"

text \<open>A leading surrogate followed by a trailing one is one code point, copied as it is.\<close>

fun quoteUnits :: "jsstring \<Rightarrow> jsstring" where
  "quoteUnits [] = []"
| "quoteUnits [c] = escapeUnit c"
| "quoteUnits (c # d # cs) =
     (if isLeadingSurrogate c \<and> isTrailingSurrogate d then c # d # quoteUnits cs
      else escapeUnit c @ quoteUnits (d # cs))"

definition QuoteJSONString :: "jsstring \<Rightarrow> jsstring" where
  "QuoteJSONString s = [0x22] @ quoteUnits s @ [0x22]"

text \<open>\<open>JSON.stringify({ topic })\<close> for a string \<open>topic\<close>: one member, no white space.\<close>

definition stringify_topic :: "jsstring \<Rightarrow> jsstring" where
  "stringify_topic t = [0x7B] @ QuoteJSONString (js ''topic'') @ [0x3A] @ QuoteJSONString t @ [0x7D]"

subsection \<open>Reading the body back\<close>

text \<open>
  The reading side, after the JSON grammar for strings (RFC 8259, section 7): what a
  JSON parser reads from the text that \<open>JSON.stringify\<close> wrote. It is the yardstick
  for the request body, not part of the source.
\<close>

definition unhex :: "16 word \<Rightarrow> 16 word option" where
  "unhex h =
     (if 0x30 \<le> h \<and> h \<le> 0x39 then Some (h - 0x30)
      else if 0x61 \<le> h \<and> h \<le> 0x66 then Some (h - 0x61 + 10)
      else if 0x41 \<le> h \<and> h \<le> 0x46 then Some (h - 0x41 + 10)
      else None)"

definition hex4 :: "16 word \<Rightarrow> 16 word \<Rightarrow> 16 word \<Rightarrow> 16 word \<Rightarrow> 16 word option" where
  "hex4 a b c d =
     (case (unhex a, unhex b, unhex c, unhex d) of
        (Some h3, Some h2, Some h1, Some h0) \<Rightarrow>
          Some (push_bit 12 h3 OR push_bit 8 h2 OR push_bit 4 h1 OR h0)
      | _ \<Rightarrow> None)"

text \<open>The character after a backslash, other than \<open>u\<close>.\<close>

definition unescape :: "16 word \<Rightarrow> 16 word option" where
  "unescape e =
     (if e = 0x22 then Some 0x22
      else if e = 0x5C then Some 0x5C
      else if e = 0x2F then Some 0x2F
      else if e = 0x62 then Some 0x08
      else if e = 0x66 then Some 0x0C
      else if e = 0x6E then Some 0x0A
      else if e = 0x72 then Some 0x0D
      else if e = 0x74 then Some 0x09
      else None)"

definition consUnit ::
  "16 word \<Rightarrow> (jsstring \<times> jsstring) option \<Rightarrow> (jsstring \<times> jsstring) option" where
  "consUnit c x = (case x of None \<Rightarrow> None | Some (s, r) \<Rightarrow> Some (c # s, r))"

text \<open>
  The characters of a string after its opening quotation mark: the string read up to
  the closing quotation mark, and the text after it.
\<close>

fun json_string_units :: "jsstring \<Rightarrow> (jsstring \<times> jsstring) option" where
  "json_string_units [] = None"
| "json_string_units (c # cs) =
     (if c = 0x22 then Some ([], cs)
      else if c = 0x5C then
        (case cs of
           [] \<Rightarrow> None
         | e # es \<Rightarrow>
             if e = 0x75 then
               (case es of
                  a # b # x # y # rest \<Rightarrow>
                    (case hex4 a b x y of
                       None \<Rightarrow> None
                     | Some u \<Rightarrow> consUnit u (json_string_units rest))
                | _ \<Rightarrow> None)
             else (case unescape e of
                     None \<Rightarrow> None
                   | Some u \<Rightarrow> consUnit u (json_string_units es)))
      else if c < 0x20 then None
      else consUnit c (json_string_units cs))"

definition read_string :: "jsstring \<Rightarrow> (jsstring \<times> jsstring) option" where
  "read_string t = (case t of [] \<Rightarrow> None | q # cs \<Rightarrow> if q = 0x22 then json_string_units cs else None)"

text \<open>
  A text that is an object with exactly one member whose value is a string, written
  without white space: the member's name and its value.
\<close>

definition read_single_member :: "jsstring \<Rightarrow> (jsstring \<times> jsstring) option" where
  "read_single_member t =
     (case t of
        [] \<Rightarrow> None
      | b # t1 \<Rightarrow>
          if b \<noteq> 0x7B then None
          else (case read_string t1 of
                  None \<Rightarrow> None
                | Some (k, t2) \<Rightarrow>
                    (case t2 of
                       [] \<Rightarrow> None
                     | colon # t3 \<Rightarrow>
                         if colon \<noteq> 0x3A then None
                         else (case read_string t3 of
                                 None \<Rightarrow> None
                               | Some (x, t4) \<Rightarrow> if t4 = [0x7D] then Some (k, x) else None))))"

section \<open>The exchange\<close>

text \<open>
  The arguments of \<open>fetch\<close>: the address and the init object (\<open>method_\<close> is its
  \<open>method\<close>, \<open>body\<close> the text that \<open>JSON.stringify\<close> returned).
\<close>

record request =
  url :: jsstring
  method_ :: jsstring
  headers :: "(jsstring \<times> jsstring) list"
  body :: jsstring

text \<open>How \<open>response.json()\<close> settles.\<close>

datatype json_result = JsonRejects | JsonResolves json

record response =
  status :: nat
  json :: json_result

text \<open>How \<open>fetch\<close> settles. An exchange that never settles is a run with no such event.\<close>

datatype fetch_result = FetchRejects | FetchResolves response

text \<open>\<open>response.ok\<close>: the status is in the range 200 to 299.\<close>

definition ok :: "response \<Rightarrow> bool" where
  "ok r \<longleftrightarrow> 200 \<le> status r \<and> status r \<le> 299"

section \<open>The view\<close>

text \<open>The four \<open>useState\<close> cells of \<open>App\<close>.\<close>

record view =
  topic :: jsstring
  generatedTweet :: jsval
  isLoading :: bool
  error :: jsval

definition initial_view :: view where
  "initial_view =
     \<lparr>topic = [], generatedTweet = Val (JStr []), isLoading = False, error = Val JNull\<rparr>"

definition validation_message :: jsstring where
  "validation_message = js ''Please enter a topic.''"

definition generic_message :: jsstring where
  "generic_message = js ''Failed to generate tweet. Is the backend server running?''"

definition endpoint :: jsstring where
  "endpoint = js ''http://127.0.0.1:5000/api/generate-tweet''"

text \<open>The argument of \<open>fetch\<close> (lines 24 to 30).\<close>

definition make_request :: "jsstring \<Rightarrow> request" where
  "make_request t =
     \<lparr>url = endpoint, method_ = js ''POST'',
      headers = [(js ''Content-Type'', js ''application/json'')],
      body = stringify_topic t\<rparr>"

text \<open>
  \<open>handleGenerateTweet\<close> up to its first \<open>await\<close> (lines 14 to 30): the view it leaves
  and the request it sends, if any.
\<close>

definition handleGenerateTweet_begin :: "view \<Rightarrow> view \<times> request option" where
  "handleGenerateTweet_begin v =
     (if trim (topic v) = [] then (v\<lparr>error := Val (JStr validation_message)\<rparr>, None)
      else (v\<lparr>isLoading := True, error := Val JNull, generatedTweet := Val (JStr [])\<rparr>,
            Some (make_request (topic v))))"

text \<open>
  The rest of the \<open>try\<close> block (lines 32 to 42), given how \<open>fetch\<close> settled: the
  exception thrown, or the argument of \<open>setGeneratedTweet\<close>.
\<close>

definition try_block :: "fetch_result \<Rightarrow> js_exception + jsval" where
  "try_block f =
     (case f of
        FetchRejects \<Rightarrow> Inl NetworkError
      | FetchResolves r \<Rightarrow>
          if \<not> ok r then Inl (HttpStatusError (status r))
          else (case json r of
                  JsonRejects \<Rightarrow> Inl JsonParseError
                | JsonResolves d \<Rightarrow>
                    (case get_prop d (js ''error'') of
                       Inl e \<Rightarrow> Inl e
                     | Inr err \<Rightarrow>
                         if truthy err then Inl (new_Error err)
                         else get_prop d (js ''tweet''))))"

text \<open>
  \<open>handleGenerateTweet\<close> after the \<open>await\<close> (lines 32 to 48): the \<open>try\<close> block, the
  \<open>catch\<close> that logs the exception and sets the fixed message, and the \<open>finally\<close>.
  The second component is what \<open>console.error\<close> received.
\<close>

definition handleGenerateTweet_settle :: "fetch_result \<Rightarrow> view \<Rightarrow> view \<times> js_exception list" where
  "handleGenerateTweet_settle f v =
     (case try_block f of
        Inr t \<Rightarrow> (v\<lparr>generatedTweet := t, isLoading := False\<rparr>, [])
      | Inl e \<Rightarrow> (v\<lparr>error := Val (JStr generic_message), isLoading := False\<rparr>, [e]))"

text \<open>
  One whole call of \<open>handleGenerateTweet\<close> where \<open>fetch\<close>, if it is called, settles as
  \<open>f\<close>: the final view, the requests sent and the console log.
\<close>

definition handleGenerateTweet ::
  "fetch_result \<Rightarrow> view \<Rightarrow> view \<times> request list \<times> js_exception list" where
  "handleGenerateTweet f v =
     (case handleGenerateTweet_begin v of
        (v', None) \<Rightarrow> (v', [], [])
      | (v', Some rq) \<Rightarrow>
          (case handleGenerateTweet_settle f v' of (v'', lg) \<Rightarrow> (v'', [rq], lg)))"

subsection \<open>Rendering\<close>

text \<open>\<open>{error && ...}\<close> and \<open>{generatedTweet && ...}\<close> (lines 91 and 97).\<close>

definition error_panel_shown :: "view \<Rightarrow> bool" where
  "error_panel_shown v = truthy (error v)"

definition result_panel_shown :: "view \<Rightarrow> bool" where
  "result_panel_shown v = truthy (generatedTweet v)"

subsection \<open>The page as a transition system\<close>

text \<open>
  The events of the page: a change of the textarea (\<open>setTopic(e.target.value)\<close>), a
  click on the button, and the settling of an outstanding \<open>fetch\<close>. The textarea and
  the button are \<open>disabled={isLoading}\<close> (lines 79 and 83).
\<close>

datatype event = Change jsstring | Click | Settle fetch_result

record page =
  ui :: view
  inflight :: "request list"
  console :: "js_exception list"

definition initial_page :: page where
  "initial_page = \<lparr>ui = initial_view, inflight = [], console = []\<rparr>"

fun step :: "event \<Rightarrow> page \<Rightarrow> page option" where
  "step (Change s) p =
     (if isLoading (ui p) then None else Some (p\<lparr>ui := (ui p)\<lparr>topic := s\<rparr>\<rparr>))"
| "step Click p =
     (if isLoading (ui p) then None
      else (case handleGenerateTweet_begin (ui p) of
              (v, None) \<Rightarrow> Some (p\<lparr>ui := v\<rparr>)
            | (v, Some rq) \<Rightarrow> Some (p\<lparr>ui := v, inflight := inflight p @ [rq]\<rparr>)))"
| "step (Settle f) p =
     (case inflight p of
        [] \<Rightarrow> None
      | rq # rqs \<Rightarrow>
          (case handleGenerateTweet_settle f (ui p) of
             (v, lg) \<Rightarrow> Some (p\<lparr>ui := v, inflight := rqs, console := console p @ lg\<rparr>)))"

fun run :: "event list \<Rightarrow> page \<Rightarrow> page option" where
  "run [] p = Some p"
| "run (e # es) p = (case step e p of None \<Rightarrow> None | Some p' \<Rightarrow> run es p')"

definition reachable :: "page \<Rightarrow> bool" where
  "reachable p \<longleftrightarrow> (\<exists>es. run es initial_page = Some p)"

text \<open>What every reachable page satisfies.\<close>

definition page_inv :: "page \<Rightarrow> bool" where
  "page_inv p \<longleftrightarrow>
     (isLoading (ui p) \<longleftrightarrow> inflight p \<noteq> []) \<and> length (inflight p) \<le> 1 \<and>
     (isLoading (ui p) \<longrightarrow> error (ui p) = Val JNull \<and> generatedTweet (ui p) = Val (JStr [])) \<and>
     (truthy (error (ui p)) \<and> truthy (generatedTweet (ui p)) \<longrightarrow>
        error (ui p) = Val (JStr validation_message))"

section \<open>Helper facts\<close>

lemmas handler_defs =
  handleGenerateTweet_def handleGenerateTweet_begin_def handleGenerateTweet_settle_def
  try_block_def get_prop_def

lemmas concrete_defs =
  initial_view_def initial_page_def trim_def isWhiteSpace_def js_def ok_def

subsection \<open>\<open>trim\<close>\<close>

lemma dropWhile_all_iff: "(\<forall>x\<in>set (dropWhile P xs). P x) \<longleftrightarrow> (\<forall>x\<in>set xs. P x)"
proof (cases "dropWhile P xs")
  case Nil
  then have "\<forall>x\<in>set xs. P x" by (simp add: dropWhile_eq_Nil_conv)
  then show ?thesis by (auto dest: set_dropWhileD)
next
  case (Cons y ys)
  then have "\<not> P y" using hd_dropWhile [of P xs] by simp
  moreover have "y \<in> set xs" using Cons set_dropWhileD [of y P xs] by simp
  ultimately show ?thesis using Cons by auto
qed

lemma trim_empty_iff: "trim s = [] \<longleftrightarrow> (\<forall>c\<in>set s. isWhiteSpace c)"
  by (simp add: trim_def dropWhile_eq_Nil_conv dropWhile_all_iff)

subsection \<open>The two halves of the handler\<close>

lemma begin_invalid:
  "trim (topic v) = [] \<Longrightarrow>
   handleGenerateTweet_begin v = (v\<lparr>error := Val (JStr validation_message)\<rparr>, None)"
  by (simp add: handleGenerateTweet_begin_def)

lemma begin_valid:
  "trim (topic v) \<noteq> [] \<Longrightarrow>
   handleGenerateTweet_begin v =
     (v\<lparr>isLoading := True, error := Val JNull, generatedTweet := Val (JStr [])\<rparr>,
      Some (make_request (topic v)))"
  by (simp add: handleGenerateTweet_begin_def)

lemma settle_cases:
  "handleGenerateTweet_settle f v =
     (case try_block f of
        Inr t \<Rightarrow> (v\<lparr>generatedTweet := t, isLoading := False\<rparr>, [])
      | Inl e \<Rightarrow> (v\<lparr>error := Val (JStr generic_message), isLoading := False\<rparr>, [e]))"
  by (simp add: handleGenerateTweet_settle_def)

lemma settle_not_loading: "\<not> isLoading (fst (handleGenerateTweet_settle f v))"
  by (simp add: handleGenerateTweet_settle_def split: sum.splits)

lemma generic_message_ne: "generic_message \<noteq> []"
  by (simp add: generic_message_def js_def)

lemma valid_AI: "trim (topic (initial_view\<lparr>topic := js ''AI''\<rparr>)) \<noteq> []"
  by (simp add: concrete_defs)

subsection \<open>The invariant of the page\<close>

lemma page_inv_initial: "page_inv initial_page"
  by (simp add: page_inv_def initial_page_def initial_view_def)

lemma page_inv_step: "page_inv p \<Longrightarrow> step e p = Some q \<Longrightarrow> page_inv q"
proof (cases e)
  case (Change s)
  assume "page_inv p" "step e p = Some q"
  with Change show ?thesis by (auto simp: page_inv_def split: if_splits)
next
  case Click
  assume "page_inv p" "step e p = Some q"
  with Click show ?thesis
    by (auto simp: page_inv_def handleGenerateTweet_begin_def split: if_splits)
next
  case (Settle f)
  assume "page_inv p" "step e p = Some q"
  with Settle show ?thesis
    by (auto simp: page_inv_def handleGenerateTweet_settle_def split: list.splits sum.splits)
qed

lemma page_inv_run: "page_inv p \<Longrightarrow> run es p = Some q \<Longrightarrow> page_inv q"
proof (induction es arbitrary: p)
  case Nil
  then show ?case by simp
next
  case (Cons e es)
  then show ?case by (auto split: option.splits dest: page_inv_step)
qed

lemma reachable_inv: "reachable p \<Longrightarrow> page_inv p"
  unfolding reachable_def using page_inv_run [OF page_inv_initial] by blast

text \<open>
  Two reachable pages: one with an exchange outstanding, and the one that a success
  followed by a submit of a blank topic leaves.
\<close>

lemma loading_page_reachable:
  "reachable \<lparr>ui = \<lparr>topic = js ''AI'', generatedTweet = Val (JStr []), isLoading = True,
                   error = Val JNull\<rparr>,
              inflight = [make_request (js ''AI'')], console = []\<rparr>"
proof -
  have "run [Change (js ''AI''), Click] initial_page =
        Some \<lparr>ui = \<lparr>topic = js ''AI'', generatedTweet = Val (JStr []), isLoading = True,
                   error = Val JNull\<rparr>,
              inflight = [make_request (js ''AI'')], console = []\<rparr>"
    by (simp add: handler_defs concrete_defs)
  then show ?thesis unfolding reachable_def by blast
qed

lemma blank_after_success_reachable:
  "reachable \<lparr>ui = \<lparr>topic = js '' '', generatedTweet = Val (JStr (js ''hi'')), isLoading = False,
                   error = Val (JStr validation_message)\<rparr>,
              inflight = [], console = []\<rparr>"
proof -
  have "run [Change (js ''AI''), Click,
             Settle (FetchResolves
               \<lparr>status = 200, json = JsonResolves (JObj [(js ''tweet'', JStr (js ''hi''))])\<rparr>),
             Change (js '' ''), Click] initial_page =
        Some \<lparr>ui = \<lparr>topic = js '' '', generatedTweet = Val (JStr (js ''hi'')), isLoading = False,
                   error = Val (JStr validation_message)\<rparr>,
              inflight = [], console = []\<rparr>"
    by (simp add: handler_defs concrete_defs)
  then show ?thesis unfolding reachable_def by blast
qed

subsection \<open>Writing a string and reading it back\<close>

lemma unhex_hexDigit: "d < 16 \<Longrightarrow> unhex (hexDigit d) = Some d"
  unfolding unhex_def hexDigit_def
  by (auto simp: word_less_nat_alt word_le_nat_alt unat_word_ariths unat_sub)

lemma nibbles_recombine:
  "push_bit 12 (drop_bit 12 c) OR push_bit 8 (take_bit 4 (drop_bit 8 c))
     OR push_bit 4 (take_bit 4 (drop_bit 4 c)) OR take_bit 4 c = (c :: 16 word)"
proof (rule bit_eqI)
  fix n
  assume "possible_bit TYPE(16 word) n"
  then have n: "n < 16" by (simp add: possible_bit_def)
  consider "n < 4" | "4 \<le> n" "n < 8" | "8 \<le> n" "n < 12" | "12 \<le> n" by linarith
  then show "bit (push_bit 12 (drop_bit 12 c) OR push_bit 8 (take_bit 4 (drop_bit 8 c))
     OR push_bit 4 (take_bit 4 (drop_bit 4 c)) OR take_bit 4 c) n = bit c n"
    using n by cases (auto simp: bit_simps)
qed

lemma take_bit_4_lt: "take_bit 4 (x :: 16 word) < 16"
  using take_bit_nat_less_exp [of 4 "unat x"]
  by (simp add: word_less_nat_alt unsigned_take_bit_eq)

lemma drop_bit_12_lt: "drop_bit 12 (c :: 16 word) < 16"
proof -
  have "unat c < 2 ^ 16" using unsigned_less [of c] by simp
  then have "unat c div 2 ^ 12 < 16" by simp
  then show ?thesis by (simp add: word_less_nat_alt drop_bit_eq_div unat_div)
qed

lemma hex4_nibbles:
  "hex4 (hexDigit (drop_bit 12 c)) (hexDigit (take_bit 4 (drop_bit 8 c)))
        (hexDigit (take_bit 4 (drop_bit 4 c))) (hexDigit (take_bit 4 c)) = Some c"
  by (simp add: hex4_def unhex_hexDigit take_bit_4_lt drop_bit_12_lt nibbles_recombine)

lemma units_quote: "json_string_units (0x22 # cs) = Some ([], cs)"
  by simp

lemma units_plain:
  "c \<noteq> 0x22 \<Longrightarrow> c \<noteq> 0x5C \<Longrightarrow> \<not> c < 0x20 \<Longrightarrow>
   json_string_units (c # cs) = consUnit c (json_string_units cs)"
  by simp

lemma units_escape:
  "e \<noteq> 0x75 \<Longrightarrow> json_string_units (0x5C # e # es) =
     (case unescape e of None \<Rightarrow> None | Some u \<Rightarrow> consUnit u (json_string_units es))"
  by simp

lemma units_unicode:
  "json_string_units (0x5C # 0x75 # a # b # x # y # rest) =
     (case hex4 a b x y of None \<Rightarrow> None | Some u \<Rightarrow> consUnit u (json_string_units rest))"
  by simp

lemma units_escapeUnit:
  "json_string_units (escapeUnit c @ xs) = consUnit c (json_string_units xs)"
  unfolding escapeUnit_def UnicodeEscape_def
  by (simp add: units_plain units_escape units_unicode unescape_def hex4_nibbles
      del: json_string_units.simps)

lemma surrogate_plain:
  "isLeadingSurrogate c \<or> isTrailingSurrogate c \<Longrightarrow> c \<noteq> 0x22 \<and> c \<noteq> 0x5C \<and> \<not> c < 0x20"
  by (auto simp: isLeadingSurrogate_def isTrailingSurrogate_def word_le_nat_alt word_less_nat_alt)

lemma units_quoteUnits:
  "json_string_units (quoteUnits s @ 0x22 # rest) = Some (s, rest)"
proof (induction s rule: quoteUnits.induct)
  case 1
  show ?case by simp
next
  case (2 c)
  show ?case
    by (simp add: units_escapeUnit units_quote consUnit_def del: json_string_units.simps(2))
next
  case (3 c d cs)
  show ?case
  proof (cases "isLeadingSurrogate c \<and> isTrailingSurrogate d")
    case True
    then have "c \<noteq> 0x22 \<and> c \<noteq> 0x5C \<and> \<not> c < 0x20" "d \<noteq> 0x22 \<and> d \<noteq> 0x5C \<and> \<not> d < 0x20"
      using surrogate_plain by blast+
    moreover have "json_string_units (quoteUnits cs @ 0x22 # rest) = Some (cs, rest)"
      using True 3 by blast
    ultimately show ?thesis
      using True by (simp add: consUnit_def units_plain del: json_string_units.simps)
  next
    case False
    then have "quoteUnits (c # d # cs) = escapeUnit c @ quoteUnits (d # cs)" by auto
    moreover have "json_string_units (quoteUnits (d # cs) @ 0x22 # rest) = Some (d # cs, rest)"
      using False 3 by blast
    ultimately show ?thesis by (simp add: units_escapeUnit consUnit_def)
  qed
qed

lemma read_string_Quote: "read_string (QuoteJSONString s @ rest) = Some (s, rest)"
  by (simp add: read_string_def QuoteJSONString_def units_quoteUnits del: json_string_units.simps)

lemma read_stringify_topic: "read_single_member (stringify_topic t) = Some (js ''topic'', t)"
  by (simp add: read_single_member_def stringify_topic_def read_string_Quote)

lemma stringify_topic_text:
  \<open>stringify_topic t = js ''{"topic":'' @ QuoteJSONString t @ js ''}''\<close>
  by (simp add: stringify_topic_def QuoteJSONString_def js_def escapeUnit_def
      isLeadingSurrogate_def isTrailingSurrogate_def)

section \<open>The claims\<close>

subsection \<open>C1: an error field in the response body\<close>

text \<open>
  C1 as it is stated fails: for the status 200 and the body \<open>{"error": "boom"}\<close> the
  view's error is not \<open>boom\<close>. The \<open>catch\<close> block replaces every exception by the fixed
  message.
\<close>

theorem error_field_not_shown_verbatim:
  "own_property (JObj [(js ''error'', JStr (js ''boom''))]) (js ''error'') = Some (JStr (js ''boom''))
   \<and> error (fst (handleGenerateTweet
        (FetchResolves
           \<lparr>status = 200, json = JsonResolves (JObj [(js ''error'', JStr (js ''boom''))])\<rparr>)
        (initial_view\<lparr>topic := js ''AI''\<rparr>))) \<noteq> Val (JStr (js ''boom''))"
  by (simp add: handler_defs concrete_defs generic_message_def)

text \<open>
  C1, amended: for every exchange whose response body contains a truthy error field
  \<open>E\<close>, whatever the HTTP status, a submit of a valid topic sets the view's error to the
  fixed generic message, not to \<open>E\<close>, and leaves the result empty.
\<close>

theorem error_field_gives_generic_message:
  assumes "trim (topic v) \<noteq> []" and "json r = JsonResolves d"
    and "own_property d (js ''error'') = Some E" and "truthy (Val E)"
  shows "error (fst (handleGenerateTweet (FetchResolves r) v)) = Val (JStr generic_message)
    \<and> generatedTweet (fst (handleGenerateTweet (FetchResolves r) v)) = Val (JStr [])"
proof -
  have "d \<noteq> JNull" using assms(3) by auto
  with assms show ?thesis by (simp add: handler_defs)
qed

theorem error_field_gives_generic_message_witness:
  "trim (topic (initial_view\<lparr>topic := js ''AI''\<rparr>)) \<noteq> []
   \<and> own_property (JObj [(js ''error'', JStr (js ''boom''))]) (js ''error'') = Some (JStr (js ''boom''))
   \<and> truthy (Val (JStr (js ''boom'')))
   \<and> error (fst (handleGenerateTweet
        (FetchResolves
           \<lparr>status = 200, json = JsonResolves (JObj [(js ''error'', JStr (js ''boom''))])\<rparr>)
        (initial_view\<lparr>topic := js ''AI''\<rparr>))) = Val (JStr generic_message)
   \<and> generatedTweet (fst (handleGenerateTweet
        (FetchResolves
           \<lparr>status = 200, json = JsonResolves (JObj [(js ''error'', JStr (js ''boom''))])\<rparr>)
        (initial_view\<lparr>topic := js ''AI''\<rparr>))) = Val (JStr [])"
proof -
  have p: "own_property (JObj [(js ''error'', JStr (js ''boom''))]) (js ''error'')
           = Some (JStr (js ''boom''))"
    by (simp add: js_def)
  have t: "truthy (Val (JStr (js ''boom'')))" by (simp add: js_def)
  have j: "json \<lparr>status = 200, json = JsonResolves (JObj [(js ''error'', JStr (js ''boom''))])\<rparr>
           = JsonResolves (JObj [(js ''error'', JStr (js ''boom''))])"
    by simp
  from error_field_gives_generic_message [OF valid_AI j p t] valid_AI p t
  show ?thesis by simp
qed

subsection \<open>C2: the two panels\<close>

text \<open>
  C2 as it is stated fails: after a successful exchange, a submit of a blank topic sets
  the validation message and keeps the result, so a reachable view renders both panels.
\<close>

theorem both_panels_after_blank_submit:
  "reachable \<lparr>ui = \<lparr>topic = js '' '', generatedTweet = Val (JStr (js ''hi'')), isLoading = False,
                   error = Val (JStr validation_message)\<rparr>,
              inflight = [], console = []\<rparr>
   \<and> error_panel_shown \<lparr>topic = js '' '', generatedTweet = Val (JStr (js ''hi'')),
                        isLoading = False, error = Val (JStr validation_message)\<rparr>
   \<and> result_panel_shown \<lparr>topic = js '' '', generatedTweet = Val (JStr (js ''hi'')),
                         isLoading = False, error = Val (JStr validation_message)\<rparr>"
  using blank_after_success_reachable
  by (simp add: error_panel_shown_def result_panel_shown_def validation_message_def js_def)

text \<open>
  C2, amended: in every reachable view state the error panel and the result panel are
  rendered together only when the error is the validation message of a blank submit
  (and then no exchange is outstanding); a submit of a valid topic leaves both empty
  while the exchange is outstanding and at most one of them non-empty when it resolves.
\<close>

theorem panels_exclusive_except_validation:
  "(reachable p \<longrightarrow> error_panel_shown (ui p) \<longrightarrow> result_panel_shown (ui p) \<longrightarrow>
      error (ui p) = Val (JStr validation_message) \<and> \<not> isLoading (ui p))
   \<and> (trim (topic v) \<noteq> [] \<longrightarrow>
        \<not> error_panel_shown (fst (handleGenerateTweet_begin v))
        \<and> \<not> result_panel_shown (fst (handleGenerateTweet_begin v))
        \<and> \<not> (error_panel_shown (fst (handleGenerateTweet f v))
             \<and> result_panel_shown (fst (handleGenerateTweet f v))))"
proof -
  have a: "reachable p \<longrightarrow> error_panel_shown (ui p) \<longrightarrow> result_panel_shown (ui p) \<longrightarrow>
      error (ui p) = Val (JStr validation_message) \<and> \<not> isLoading (ui p)"
    using reachable_inv [of p]
    by (auto simp: page_inv_def error_panel_shown_def result_panel_shown_def)
  have b: "trim (topic v) \<noteq> [] \<longrightarrow>
        \<not> error_panel_shown (fst (handleGenerateTweet_begin v))
        \<and> \<not> result_panel_shown (fst (handleGenerateTweet_begin v))"
    by (simp add: begin_valid error_panel_shown_def result_panel_shown_def)
  have c: "trim (topic v) \<noteq> [] \<longrightarrow>
        \<not> (error_panel_shown (fst (handleGenerateTweet f v))
           \<and> result_panel_shown (fst (handleGenerateTweet f v)))"
    by (simp add: handleGenerateTweet_def begin_valid settle_cases error_panel_shown_def
        result_panel_shown_def split: sum.splits)
  from a b c show ?thesis by blast
qed

theorem panels_exclusive_except_validation_witness:
  "reachable \<lparr>ui = \<lparr>topic = js '' '', generatedTweet = Val (JStr (js ''hi'')), isLoading = False,
                   error = Val (JStr validation_message)\<rparr>,
              inflight = [], console = []\<rparr>
   \<and> error_panel_shown \<lparr>topic = js '' '', generatedTweet = Val (JStr (js ''hi'')),
                        isLoading = False, error = Val (JStr validation_message)\<rparr>
   \<and> result_panel_shown \<lparr>topic = js '' '', generatedTweet = Val (JStr (js ''hi'')),
                         isLoading = False, error = Val (JStr validation_message)\<rparr>
   \<and> trim (topic (initial_view\<lparr>topic := js ''AI''\<rparr>)) \<noteq> []
   \<and> \<not> (error_panel_shown (fst (handleGenerateTweet FetchRejects (initial_view\<lparr>topic := js ''AI''\<rparr>)))
        \<and> result_panel_shown (fst (handleGenerateTweet FetchRejects (initial_view\<lparr>topic := js ''AI''\<rparr>))))"
  using panels_exclusive_except_validation
    [of "\<lparr>ui = \<lparr>topic = js '' '', generatedTweet = Val (JStr (js ''hi'')), isLoading = False,
                error = Val (JStr validation_message)\<rparr>,
           inflight = [], console = []\<rparr>"
        "initial_view\<lparr>topic := js ''AI''\<rparr>" FetchRejects]
    blank_after_success_reachable valid_AI
  by (simp add: error_panel_shown_def result_panel_shown_def validation_message_def js_def)

subsection \<open>C3: a blank topic\<close>

text \<open>
  C3: for every topic that is empty or consists only of white space, a submit sends no
  request, sets the error to exactly "Please enter a topic." and does not touch the
  loading flag.
\<close>

theorem blank_topic_rejected_locally:
  assumes "\<forall>c\<in>set (topic v). isWhiteSpace c"
  shows "handleGenerateTweet_begin v =
      (v\<lparr>error := Val (JStr (js ''Please enter a topic.''))\<rparr>, None)
    \<and> handleGenerateTweet f v = (v\<lparr>error := Val (JStr (js ''Please enter a topic.''))\<rparr>, [], [])
    \<and> isLoading (fst (handleGenerateTweet f v)) = isLoading v"
  using assms
  by (simp add: handleGenerateTweet_def begin_invalid trim_empty_iff validation_message_def)

theorem blank_topic_rejected_locally_witness:
  "list_all isWhiteSpace (topic (initial_view\<lparr>topic := [0x20, 0x09, 0x0A, 0x3000]\<rparr>))
   \<and> handleGenerateTweet FetchRejects (initial_view\<lparr>topic := [0x20, 0x09, 0x0A, 0x3000]\<rparr>) =
       (initial_view\<lparr>topic := [0x20, 0x09, 0x0A, 0x3000],
                      error := Val (JStr (js ''Please enter a topic.''))\<rparr>, [], [])"
proof -
  have h: "\<forall>c\<in>set (topic (initial_view\<lparr>topic := [0x20, 0x09, 0x0A, 0x3000]\<rparr>)). isWhiteSpace c"
    by (simp add: isWhiteSpace_def)
  from blank_topic_rejected_locally [OF h, of FetchRejects] show ?thesis
    using h by (simp add: list_all_iff)
qed

subsection \<open>C4: a successful exchange\<close>

text \<open>
  C4: for every exchange with a 2xx status whose body is an object with the member
  \<open>tweet\<close> of value \<open>T\<close> and no member \<open>error\<close>, a submit of a valid topic sets the
  result to exactly \<open>T\<close> and leaves the error empty.
\<close>

theorem success_sets_result:
  assumes "trim (topic v) \<noteq> []" and "ok r" and "json r = JsonResolves d"
    and "own_property d (js ''tweet'') = Some T" and "own_property d (js ''error'') = None"
  shows "generatedTweet (fst (handleGenerateTweet (FetchResolves r) v)) = Val T
    \<and> error (fst (handleGenerateTweet (FetchResolves r) v)) = Val JNull
    \<and> \<not> error_panel_shown (fst (handleGenerateTweet (FetchResolves r) v))
    \<and> snd (snd (handleGenerateTweet (FetchResolves r) v)) = []"
proof -
  have "d \<noteq> JNull" using assms(4) by auto
  with assms show ?thesis by (simp add: handler_defs error_panel_shown_def)
qed

theorem success_sets_result_witness:
  "trim (topic (initial_view\<lparr>topic := js ''AI''\<rparr>)) \<noteq> []
   \<and> ok \<lparr>status = 200, json = JsonResolves (JObj [(js ''tweet'', JStr (js ''Solar''))])\<rparr>
   \<and> own_property (JObj [(js ''tweet'', JStr (js ''Solar''))]) (js ''tweet'') = Some (JStr (js ''Solar''))
   \<and> own_property (JObj [(js ''tweet'', JStr (js ''Solar''))]) (js ''error'') = None
   \<and> generatedTweet (fst (handleGenerateTweet
        (FetchResolves \<lparr>status = 200, json = JsonResolves (JObj [(js ''tweet'', JStr (js ''Solar''))])\<rparr>)
        (initial_view\<lparr>topic := js ''AI''\<rparr>))) = Val (JStr (js ''Solar''))
   \<and> error (fst (handleGenerateTweet
        (FetchResolves \<lparr>status = 200, json = JsonResolves (JObj [(js ''tweet'', JStr (js ''Solar''))])\<rparr>)
        (initial_view\<lparr>topic := js ''AI''\<rparr>))) = Val JNull"
proof -
  have k: "ok \<lparr>status = 200, json = JsonResolves (JObj [(js ''tweet'', JStr (js ''Solar''))])\<rparr>"
    by (simp add: ok_def)
  have j: "json \<lparr>status = 200, json = JsonResolves (JObj [(js ''tweet'', JStr (js ''Solar''))])\<rparr>
           = JsonResolves (JObj [(js ''tweet'', JStr (js ''Solar''))])"
    by simp
  have t: "own_property (JObj [(js ''tweet'', JStr (js ''Solar''))]) (js ''tweet'')
           = Some (JStr (js ''Solar''))"
    by (simp add: js_def)
  have e: "own_property (JObj [(js ''tweet'', JStr (js ''Solar''))]) (js ''error'') = None"
    by (simp add: js_def)
  from success_sets_result [OF valid_AI k j t e] valid_AI k t e show ?thesis by simp
qed

subsection \<open>C5: a failed exchange\<close>

text \<open>
  C5: for every exchange that returns a status outside 2xx, and for every failure of the
  transport (\<open>fetch\<close> rejects, or the body cannot be parsed), a submit of a valid topic
  sets the error to the one fixed generic message and leaves the result empty.
\<close>

theorem transport_failure_gives_generic_message:
  assumes "trim (topic v) \<noteq> []"
    and "f = FetchRejects \<or> (\<exists>r. f = FetchResolves r \<and> (\<not> ok r \<or> json r = JsonRejects))"
  shows "error (fst (handleGenerateTweet f v)) =
      Val (JStr (js ''Failed to generate tweet. Is the backend server running?''))
    \<and> generatedTweet (fst (handleGenerateTweet f v)) = Val (JStr [])"
  using assms by (auto simp: handler_defs generic_message_def)

theorem transport_failure_gives_generic_message_witness:
  "trim (topic (initial_view\<lparr>topic := js ''AI''\<rparr>)) \<noteq> []
   \<and> \<not> ok \<lparr>status = 503, json = JsonResolves (JObj [(js ''tweet'', JStr (js ''Solar''))])\<rparr>
   \<and> error (fst (handleGenerateTweet
        (FetchResolves \<lparr>status = 503, json = JsonResolves (JObj [(js ''tweet'', JStr (js ''Solar''))])\<rparr>)
        (initial_view\<lparr>topic := js ''AI''\<rparr>))) =
      Val (JStr (js ''Failed to generate tweet. Is the backend server running?''))
   \<and> generatedTweet (fst (handleGenerateTweet
        (FetchResolves \<lparr>status = 503, json = JsonResolves (JObj [(js ''tweet'', JStr (js ''Solar''))])\<rparr>)
        (initial_view\<lparr>topic := js ''AI''\<rparr>))) = Val (JStr [])"
proof -
  have k: "\<not> ok \<lparr>status = 503, json = JsonResolves (JObj [(js ''tweet'', JStr (js ''Solar''))])\<rparr>"
    by (simp add: ok_def)
  then have h: "FetchResolves \<lparr>status = 503, json = JsonResolves (JObj [(js ''tweet'', JStr (js ''Solar''))])\<rparr>
        = FetchRejects
      \<or> (\<exists>r. FetchResolves \<lparr>status = 503, json = JsonResolves (JObj [(js ''tweet'', JStr (js ''Solar''))])\<rparr>
              = FetchResolves r \<and> (\<not> ok r \<or> json r = JsonRejects))"
    by blast
  from transport_failure_gives_generic_message [OF valid_AI h] valid_AI k show ?thesis by simp
qed

subsection \<open>C6: the loading flag\<close>

text \<open>
  C6: a submit of a valid topic sets the loading flag when it starts, and the flag is
  cleared when the exchange resolves, however it resolves; a submit of a blank topic
  leaves the flag as it is; and in every reachable state of the page the flag is set
  exactly while an exchange is outstanding, of which there is at most one.
\<close>

theorem loading_tracks_exchange:
  "(trim (topic v) \<noteq> [] \<longrightarrow>
      isLoading (fst (handleGenerateTweet_begin v)) \<and> \<not> isLoading (fst (handleGenerateTweet f v)))
   \<and> \<not> isLoading (fst (handleGenerateTweet_settle f w))
   \<and> (trim (topic u) = [] \<longrightarrow> isLoading (fst (handleGenerateTweet f u)) = isLoading u)
   \<and> (reachable p \<longrightarrow> (isLoading (ui p) \<longleftrightarrow> inflight p \<noteq> []) \<and> length (inflight p) \<le> 1)"
proof -
  have "reachable p \<longrightarrow> (isLoading (ui p) \<longleftrightarrow> inflight p \<noteq> []) \<and> length (inflight p) \<le> 1"
    using reachable_inv [of p] by (simp add: page_inv_def)
  moreover have "trim (topic v) \<noteq> [] \<longrightarrow> \<not> isLoading (fst (handleGenerateTweet f v))"
    by (simp add: handleGenerateTweet_def begin_valid settle_cases split: sum.splits)
  moreover have "trim (topic u) = [] \<longrightarrow> isLoading (fst (handleGenerateTweet f u)) = isLoading u"
    by (simp add: handleGenerateTweet_def begin_invalid)
  ultimately show ?thesis
    by (simp add: settle_not_loading begin_valid)
qed

theorem loading_tracks_exchange_witness:
  "trim (topic (initial_view\<lparr>topic := js ''AI''\<rparr>)) \<noteq> []
   \<and> isLoading (fst (handleGenerateTweet_begin (initial_view\<lparr>topic := js ''AI''\<rparr>)))
   \<and> \<not> isLoading (fst (handleGenerateTweet FetchRejects (initial_view\<lparr>topic := js ''AI''\<rparr>)))
   \<and> trim (topic initial_view) = []
   \<and> \<not> isLoading (fst (handleGenerateTweet FetchRejects initial_view))
   \<and> reachable \<lparr>ui = \<lparr>topic = js ''AI'', generatedTweet = Val (JStr []), isLoading = True,
                     error = Val JNull\<rparr>,
                inflight = [make_request (js ''AI'')], console = []\<rparr>"
proof -
  have b: "trim (topic initial_view) = []" by (simp add: concrete_defs)
  have n: "\<not> isLoading initial_view" by (simp add: initial_view_def)
  from loading_tracks_exchange
    [of "initial_view\<lparr>topic := js ''AI''\<rparr>" FetchRejects initial_view initial_view
        "\<lparr>ui = \<lparr>topic = js ''AI'', generatedTweet = Val (JStr []), isLoading = True,
                error = Val JNull\<rparr>,
           inflight = [make_request (js ''AI'')], console = []\<rparr>"]
    valid_AI b n loading_page_reachable
  show ?thesis by simp
qed

subsection \<open>C7: the start of a valid submit\<close>

text \<open>
  C7: for every topic that is not blank, a submit first sets the loading flag, sets the
  error to \<open>null\<close> and the result to the empty string, and then sends exactly one
  request.
\<close>

theorem valid_submit_resets_then_sends_once:
  assumes "trim (topic v) \<noteq> []"
  shows "handleGenerateTweet_begin v =
      (v\<lparr>isLoading := True, error := Val JNull, generatedTweet := Val (JStr [])\<rparr>,
       Some (make_request (topic v)))
    \<and> fst (snd (handleGenerateTweet f v)) = [make_request (topic v)]"
  using assms
  by (simp add: handleGenerateTweet_def begin_valid settle_cases split: sum.splits)

theorem valid_submit_resets_then_sends_once_witness:
  "trim (topic (initial_view\<lparr>topic := js ''AI''\<rparr>)) \<noteq> []
   \<and> handleGenerateTweet_begin (initial_view\<lparr>topic := js ''AI''\<rparr>) =
      (\<lparr>topic = js ''AI'', generatedTweet = Val (JStr []), isLoading = True, error = Val JNull\<rparr>,
       Some (make_request (js ''AI'')))
   \<and> fst (snd (handleGenerateTweet FetchRejects (initial_view\<lparr>topic := js ''AI''\<rparr>)))
       = [make_request (js ''AI'')]"
  using valid_submit_resets_then_sends_once [OF valid_AI, of FetchRejects] valid_AI
  by (simp add: initial_view_def)

subsection \<open>C8: the request\<close>

text \<open>
  C8: for every valid submission the one request sent is a POST to the endpoint with
  the single header \<open>Content-Type: application/json\<close>, and its body is the JSON text
  of an object with exactly one member, \<open>topic\<close>, whose value reads back as the topic
  string.
\<close>

theorem request_is_json_post_of_topic:
  assumes \<open>trim (topic v) \<noteq> []\<close>
  shows \<open>fst (snd (handleGenerateTweet f v)) =
      [\<lparr>url = js ''http://127.0.0.1:5000/api/generate-tweet'', method_ = js ''POST'',
        headers = [(js ''Content-Type'', js ''application/json'')],
        body = js ''{"topic":'' @ QuoteJSONString (topic v) @ js ''}''\<rparr>]
    \<and> read_single_member (js ''{"topic":'' @ QuoteJSONString (topic v) @ js ''}'')
        = Some (js ''topic'', topic v)\<close>
proof -
  have "fst (snd (handleGenerateTweet f v)) = [make_request (topic v)]"
    using assms by (simp add: handleGenerateTweet_def begin_valid settle_cases split: sum.splits)
  then show ?thesis
    using read_stringify_topic [of "topic v"]
    by (simp add: make_request_def endpoint_def stringify_topic_text)
qed

theorem request_is_json_post_of_topic_witness:
  \<open>trim (topic (initial_view\<lparr>topic := js ''AI''\<rparr>)) \<noteq> []
   \<and> fst (snd (handleGenerateTweet FetchRejects (initial_view\<lparr>topic := js ''AI''\<rparr>))) =
      [\<lparr>url = js ''http://127.0.0.1:5000/api/generate-tweet'', method_ = js ''POST'',
        headers = [(js ''Content-Type'', js ''application/json'')],
        body = js ''{"topic":"AI"}''\<rparr>]
   \<and> read_single_member (js ''{"topic":"AI"}'') = Some (js ''topic'', js ''AI'')\<close>
proof -
  have q: \<open>js ''{"topic":'' @ QuoteJSONString (js ''AI'') @ js ''}'' = js ''{"topic":"AI"}''\<close>
    by (simp add: QuoteJSONString_def js_def escapeUnit_def isLeadingSurrogate_def
        isTrailingSurrogate_def)
  from request_is_json_post_of_topic [OF valid_AI, of FetchRejects] valid_AI
  show ?thesis by (simp add: q)
qed

subsection \<open>C9: the topic\<close>

text \<open>
  C9: for every topic and every outcome of the exchange, the topic of the view is the
  same after \<open>handleGenerateTweet\<close> as before.
\<close>

theorem topic_unchanged: "topic (fst (handleGenerateTweet f v)) = topic v"
  by (simp add: handleGenerateTweet_def handleGenerateTweet_begin_def
      handleGenerateTweet_settle_def split: sum.splits)

subsection \<open>C10: a body with neither field\<close>

text \<open>
  C10 as it is stated fails: the parsed body \<open>null\<close> has neither a \<open>tweet\<close> nor an
  \<open>error\<close> field, and with a 2xx status reading \<open>data.error\<close> throws, so the generic
  message is shown.
\<close>

theorem null_body_shows_generic_message:
  "own_property JNull (js ''tweet'') = None \<and> own_property JNull (js ''error'') = None
   \<and> ok \<lparr>status = 200, json = JsonResolves JNull\<rparr>
   \<and> error (fst (handleGenerateTweet (FetchResolves \<lparr>status = 200, json = JsonResolves JNull\<rparr>)
        (initial_view\<lparr>topic := js ''AI''\<rparr>))) = Val (JStr generic_message)
   \<and> error_panel_shown (fst (handleGenerateTweet
        (FetchResolves \<lparr>status = 200, json = JsonResolves JNull\<rparr>)
        (initial_view\<lparr>topic := js ''AI''\<rparr>)))"
  by (simp add: handler_defs concrete_defs error_panel_shown_def generic_message_ne)

text \<open>
  C10, amended: for every 2xx exchange whose parsed body is not \<open>null\<close> and contains
  neither a \<open>tweet\<close> field nor a truthy \<open>error\<close> field, a submit of a valid topic is
  treated as a success: the result is set to \<open>undefined\<close>, no error message is shown
  and nothing is logged.
\<close>

theorem fieldless_body_treated_as_success:
  assumes "trim (topic v) \<noteq> []" and "ok r" and "json r = JsonResolves d" and "d \<noteq> JNull"
    and "own_property d (js ''tweet'') = None"
    and "own_property d (js ''error'') = None
         \<or> (\<exists>E. own_property d (js ''error'') = Some E \<and> truthy (Val E) = False)"
  shows "generatedTweet (fst (handleGenerateTweet (FetchResolves r) v)) = Undefined
    \<and> error (fst (handleGenerateTweet (FetchResolves r) v)) = Val JNull
    \<and> \<not> error_panel_shown (fst (handleGenerateTweet (FetchResolves r) v))
    \<and> \<not> result_panel_shown (fst (handleGenerateTweet (FetchResolves r) v))
    \<and> snd (snd (handleGenerateTweet (FetchResolves r) v)) = []"
  using assms by (auto simp: handler_defs error_panel_shown_def result_panel_shown_def)

theorem fieldless_body_treated_as_success_witness:
  "trim (topic (initial_view\<lparr>topic := js ''AI''\<rparr>)) \<noteq> []
   \<and> ok \<lparr>status = 200, json = JsonResolves (JObj [(js ''error'', JStr [])])\<rparr>
   \<and> JObj [(js ''error'', JStr [])] \<noteq> JNull
   \<and> own_property (JObj [(js ''error'', JStr [])]) (js ''tweet'') = None
   \<and> own_property (JObj [(js ''error'', JStr [])]) (js ''error'') = Some (JStr [])
   \<and> truthy (Val (JStr [])) = False
   \<and> generatedTweet (fst (handleGenerateTweet
        (FetchResolves \<lparr>status = 200, json = JsonResolves (JObj [(js ''error'', JStr [])])\<rparr>)
        (initial_view\<lparr>topic := js ''AI''\<rparr>))) = Undefined
   \<and> error (fst (handleGenerateTweet
        (FetchResolves \<lparr>status = 200, json = JsonResolves (JObj [(js ''error'', JStr [])])\<rparr>)
        (initial_view\<lparr>topic := js ''AI''\<rparr>))) = Val JNull"
proof -
  have k: "ok \<lparr>status = 200, json = JsonResolves (JObj [(js ''error'', JStr [])])\<rparr>"
    by (simp add: ok_def)
  have j: "json \<lparr>status = 200, json = JsonResolves (JObj [(js ''error'', JStr [])])\<rparr>
           = JsonResolves (JObj [(js ''error'', JStr [])])"
    by simp
  have n: "JObj [(js ''error'', JStr [])] \<noteq> JNull" by simp
  have t: "own_property (JObj [(js ''error'', JStr [])]) (js ''tweet'') = None"
    by (simp add: js_def)
  have e: "own_property (JObj [(js ''error'', JStr [])]) (js ''error'') = Some (JStr [])"
    by (simp add: js_def)
  have e': "own_property (JObj [(js ''error'', JStr [])]) (js ''error'') = None
     \<or> (\<exists>E. own_property (JObj [(js ''error'', JStr [])]) (js ''error'') = Some E
            \<and> truthy (Val E) = False)"
    using e by simp
  from fieldless_body_treated_as_success [OF valid_AI k j n t e'] valid_AI k t e
  show ?thesis by simp
qed

end
